theory Spec2Isabelle
  imports Main "HOL-Library.Monad_Syntax" "HOL-Library.AList"
begin

section \<open>Strings, values and exceptions\<close>

text \<open>
  A Python \<open>str\<close> is a sequence of Unicode code points, and slicing (\<open>s[:80]\<close>) counts
  code points. A string is therefore a list of code points; \<open>u\<close> embeds an ASCII literal.
  The three non-ASCII signs of \<open>main.py\<close> are named below.
\<close>

type_synonym ustring = "nat list"

definition u :: "string \<Rightarrow> ustring" where
  "u s = map of_char s"

definition check_mark :: ustring where
  "check_mark = [0x2705]"

definition cross_mark :: ustring where
  "cross_mark = [0x274C]"

definition warning_sign :: ustring where
  "warning_sign = [0x26A0, 0xFE0F]"

text \<open>
  The values a document of the store or a keyword argument can hold. \<open>VOther\<close> stands for
  any value of another type (the store's \<open>ObjectId\<close>, a timestamp).
\<close>

datatype val = VNone | VBool bool | VInt int | VStr ustring | VList "val list" | VOther

text \<open>A Python \<open>dict\<close> with string keys, in insertion order.\<close>

type_synonym doc = "(ustring \<times> val) list"

text \<open>
  \<open>exc\<close> is an exception \<open>e\<close> raised by the store client, with \<open>str(e)\<close>.
  \<open>failure\<close> is what leaves a handler instead of a return value: the
  \<open>HTTPException\<close> a handler raises itself, the \<open>ValidationError\<close> of a schema
  constructor, or an exception of the store that the handler did not catch.
\<close>

datatype exc = Exception (str: ustring)

datatype failure = HTTPException nat ustring | ValidationError | Propagated exc

section \<open>schemas.py\<close>

record energy_product =
  name :: ustring
  sector :: ustring
  summary :: ustring
  specs :: "ustring list option"
  image :: "ustring option"
  featured :: bool

record impact_story =
  title :: ustring
  location :: "ustring option"
  sector :: "ustring option"
  summary :: ustring
  media_url :: "ustring option"
  partner :: "ustring option"

record office =
  region :: ustring
  city :: ustring
  address :: "ustring option"
  phone :: "ustring option"
  email :: "ustring option"

record inquiry =
  name :: ustring
  email :: ustring
  company :: "ustring option"
  topic :: ustring
  message :: ustring
  consent :: bool

subsection \<open>Construction with validation\<close>

text \<open>
  \<open>EnergyProduct(**kw)\<close> validates the keyword arguments against the declared fields and
  raises \<open>ValidationError\<close> (here \<open>None\<close>) when one does not fit. The validators of the
  field types belong to pydantic; they are read strictly here: a field accepts a value
  of its declared type, an \<open>Optional\<close> field also \<open>None\<close>, a field with a default may
  be absent, and a keyword that names no field is ignored. \<open>EmailStr\<close> is the validator
  of the email library, a parameter: it returns the address it accepts, or nothing.
\<close>

definition required_str :: "doc \<Rightarrow> ustring \<Rightarrow> ustring option" where
  "required_str kw k = (case map_of kw k of Some (VStr x) \<Rightarrow> Some x | _ \<Rightarrow> None)"

definition optional_str :: "doc \<Rightarrow> ustring \<Rightarrow> ustring option option" where
  "optional_str kw k =
     (case map_of kw k of
        None \<Rightarrow> Some None
      | Some VNone \<Rightarrow> Some None
      | Some (VStr x) \<Rightarrow> Some (Some x)
      | Some _ \<Rightarrow> None)"

fun str_items :: "val list \<Rightarrow> ustring list option" where
  "str_items [] = Some []"
| "str_items (VStr x # vs) = map_option ((#) x) (str_items vs)"
| "str_items (_ # vs) = None"

definition optional_str_list :: "doc \<Rightarrow> ustring \<Rightarrow> ustring list option option" where
  "optional_str_list kw k =
     (case map_of kw k of
        None \<Rightarrow> Some None
      | Some VNone \<Rightarrow> Some None
      | Some (VList vs) \<Rightarrow> map_option Some (str_items vs)
      | Some _ \<Rightarrow> None)"

definition bool_default :: "doc \<Rightarrow> ustring \<Rightarrow> bool \<Rightarrow> bool option" where
  "bool_default kw k d =
     (case map_of kw k of None \<Rightarrow> Some d | Some (VBool b) \<Rightarrow> Some b | Some _ \<Rightarrow> None)"

definition optional_email ::
  "(ustring \<Rightarrow> ustring option) \<Rightarrow> doc \<Rightarrow> ustring \<Rightarrow> ustring option option" where
  "optional_email EmailStr kw k =
     (case map_of kw k of
        None \<Rightarrow> Some None
      | Some VNone \<Rightarrow> Some None
      | Some (VStr x) \<Rightarrow> map_option Some (EmailStr x)
      | Some _ \<Rightarrow> None)"

definition EnergyProduct :: "doc \<Rightarrow> energy_product option" where
  "EnergyProduct kw = do {
     n \<leftarrow> required_str kw (u ''name'');
     se \<leftarrow> required_str kw (u ''sector'');
     su \<leftarrow> required_str kw (u ''summary'');
     sp \<leftarrow> optional_str_list kw (u ''specs'');
     im \<leftarrow> optional_str kw (u ''image'');
     fe \<leftarrow> bool_default kw (u ''featured'') False;
     Some \<lparr>energy_product.name = n, energy_product.sector = se,
           energy_product.summary = su, specs = sp, image = im, featured = fe\<rparr>
   }"

definition ImpactStory :: "doc \<Rightarrow> impact_story option" where
  "ImpactStory kw = do {
     ti \<leftarrow> required_str kw (u ''title'');
     lo \<leftarrow> optional_str kw (u ''location'');
     se \<leftarrow> optional_str kw (u ''sector'');
     su \<leftarrow> required_str kw (u ''summary'');
     me \<leftarrow> optional_str kw (u ''media_url'');
     pa \<leftarrow> optional_str kw (u ''partner'');
     Some \<lparr>title = ti, location = lo, impact_story.sector = se,
           impact_story.summary = su, media_url = me, partner = pa\<rparr>
   }"

definition Office :: "(ustring \<Rightarrow> ustring option) \<Rightarrow> doc \<Rightarrow> office option" where
  "Office EmailStr kw = do {
     re \<leftarrow> required_str kw (u ''region'');
     ci \<leftarrow> required_str kw (u ''city'');
     ad \<leftarrow> optional_str kw (u ''address'');
     ph \<leftarrow> optional_str kw (u ''phone'');
     em \<leftarrow> optional_email EmailStr kw (u ''email'');
     Some \<lparr>region = re, city = ci, address = ad, phone = ph, office.email = em\<rparr>
   }"

section \<open>The database module, as main.py imports it\<close>

text \<open>
  \<open>database.py\<close> is not among the sources. \<open>main.py\<close> imports three names from it:
  the handle \<open>db\<close> (\<open>None\<close> when no store is configured) and the functions
  \<open>get_documents\<close> and \<open>create_document\<close>. They are parameters of every handler below,
  over a store state \<open>'s\<close> of any type, so that what is proved of a handler holds
  whatever these functions do. An argument that a call site omits is \<open>None\<close>.

  Of the handle, \<open>main.py\<close> uses the attribute \<open>name\<close> (through \<open>getattr\<close> with a
  default: the lookup raises, or finds the attribute, or finds none) and the method
  \<open>list_collection_names()\<close>.
\<close>

record handle =
  name_attr :: "exc + ustring option"
  list_collection_names :: "exc + ustring list"

record 's database_module =
  db :: "handle option"
  get_documents :: "ustring \<Rightarrow> doc option \<Rightarrow> int option \<Rightarrow> 's \<Rightarrow> exc + doc list"
  create_document :: "ustring \<Rightarrow> inquiry \<Rightarrow> 's \<Rightarrow> (exc + doc) \<times> 's"

section \<open>main.py\<close>

record inquiry_response =
  ok :: bool
  message :: ustring

record diagnostics =
  backend :: ustring
  database :: ustring
  database_url :: ustring
  database_name :: ustring
  connection_status :: ustring
  collections :: "ustring list"

text \<open>Truth value of what \<open>os.getenv\<close> returns: unset and empty both count as false.\<close>

definition is_set :: "ustring option \<Rightarrow> bool" where
  "is_set x = (case x of None \<Rightarrow> False | Some v \<Rightarrow> v \<noteq> [])"

definition root :: doc where
  "root = [(u ''status'', VStr (u ''ok'')), (u ''service'', VStr (u ''clean-energy-backend''))]"

text \<open>
  \<open>response\<close> is updated in place, so what was written before an operation raises
  stays. The outer \<open>try\<close> covers the attribute lookup, the inner one the listing of
  the collections; the two environment fields are written last, outside both.
\<close>

definition test_database ::
  "(ustring \<Rightarrow> ustring option) \<Rightarrow> 's database_module \<Rightarrow> diagnostics" where
  "test_database getenv D =
     (let response =
            \<lparr>backend = check_mark @ u '' Running'',
             database = cross_mark @ u '' Not Available'',
             database_url = cross_mark @ u '' Not Set'',
             database_name = cross_mark @ u '' Not Set'',
             connection_status = u ''Not Connected'',
             collections = []\<rparr>;
          response =
            (case db D of
               Some h \<Rightarrow>
                 (let response = response\<lparr>database_url := check_mark @ u '' Set''\<rparr> in
                  case name_attr h of
                    Inl e \<Rightarrow>
                      response\<lparr>database := cross_mark @ u '' Error: '' @ take 80 (str e)\<rparr>
                  | Inr a \<Rightarrow>
                      (let response = response
                             \<lparr>database_name :=
                                (case a of Some n \<Rightarrow> n
                                 | None \<Rightarrow> check_mark @ u '' Connected''),
                              connection_status := u ''Connected''\<rparr> in
                       case list_collection_names h of
                         Inr cs \<Rightarrow>
                           response\<lparr>collections := take 10 cs,
                                    database := check_mark @ u '' Connected & Working''\<rparr>
                       | Inl e \<Rightarrow>
                           response\<lparr>database := warning_sign
                                      @ u '' Connected but Error: '' @ take 80 (str e)\<rparr>))
             | None \<Rightarrow> response\<lparr>database := cross_mark @ u '' Database not initialized''\<rparr>)
      in response
           \<lparr>database_url :=
              (if is_set (getenv (u ''DATABASE_URL'')) then check_mark @ u '' Set''
               else cross_mark @ u '' Not Set''),
            database_name :=
              (if is_set (getenv (u ''DATABASE_NAME'')) then check_mark @ u '' Set''
               else cross_mark @ u '' Not Set'')\<rparr>)"

text \<open>
  The comprehension \<open>[C(**{k: v for k, v in d.items() if k != "_id"}) for d in docs]\<close>:
  the first document that \<open>C\<close> rejects raises \<open>ValidationError\<close>.
\<close>

definition without_id :: "doc \<Rightarrow> doc" where
  "without_id d = filter (\<lambda>(k, v). k \<noteq> u ''_id'') d"

definition build_all :: "(doc \<Rightarrow> 'a option) \<Rightarrow> doc list \<Rightarrow> failure + 'a list" where
  "build_all C docs =
     (case those (map (\<lambda>d. C (without_id d)) docs) of
        None \<Rightarrow> Inl ValidationError
      | Some rs \<Rightarrow> Inr rs)"

text \<open>A list display of constructor calls, as in the static defaults.\<close>

definition list_of :: "'a option list \<Rightarrow> failure + 'a list" where
  "list_of xs = (case those xs of None \<Rightarrow> Inl ValidationError | Some rs \<Rightarrow> Inr rs)"

definition list_solutions ::
  "'s database_module \<Rightarrow> ustring option \<Rightarrow> bool option \<Rightarrow> 's
     \<Rightarrow> failure + energy_product list" where
  "list_solutions D sector' featured' s =
     (case db D of
        None \<Rightarrow>
          list_of
            [EnergyProduct
               [(u ''name'', VStr (u ''Solar Inverters'')),
                (u ''sector'', VStr (u ''solar'')),
                (u ''summary'',
                   VStr (u ''High-efficiency PV inverters for utility and C&I.'')),
                (u ''specs'', VList [VStr (u ''98.6% max efficiency''),
                                     VStr (u ''Grid support'')]),
                (u ''image'', VNone),
                (u ''featured'', VBool True)],
             EnergyProduct
               [(u ''name'', VStr (u ''Wind Drive Systems'')),
                (u ''sector'', VStr (u ''wind'')),
                (u ''summary'',
                   VStr (u ''Reliable drivetrain and control systems for wind turbines.'')),
                (u ''specs'', VList [VStr (u ''Low maintenance''), VStr (u ''High uptime'')]),
                (u ''image'', VNone),
                (u ''featured'', VBool True)],
             EnergyProduct
               [(u ''name'', VStr (u ''Battery Energy Storage'')),
                (u ''sector'', VStr (u ''storage'')),
                (u ''summary'', VStr (u ''Modular, safe, and scalable storage systems.'')),
                (u ''specs'', VList [VStr (u ''LFP chemistry''), VStr (u ''Liquid cooling'')]),
                (u ''image'', VNone),
                (u ''featured'', VBool True)]]
      | Some h \<Rightarrow>
          (let filt = [];
               filt = (case sector' of
                         Some (c # cs) \<Rightarrow> AList.update (u ''sector'') (VStr (c # cs)) filt
                       | _ \<Rightarrow> filt);
               filt = (case featured' of
                         Some b \<Rightarrow> AList.update (u ''featured'') (VBool b) filt
                       | None \<Rightarrow> filt)
           in case get_documents D (u ''energyproduct'') (Some filt) None s of
                Inl e \<Rightarrow> Inl (Propagated e)
              | Inr docs \<Rightarrow> build_all EnergyProduct docs))"

definition list_stories ::
  "'s database_module \<Rightarrow> int \<Rightarrow> 's \<Rightarrow> failure + impact_story list" where
  "list_stories D limit s =
     (case db D of
        None \<Rightarrow>
          list_of
            [ImpactStory
               [(u ''title'', VStr (u ''200 MW Solar + Storage in MENA'')),
                (u ''location'', VStr (u ''UAE'')),
                (u ''sector'', VStr (u ''solar'')),
                (u ''summary'', VStr (u
                   ''Hybrid system powering 150k homes while avoiding 300k tons CO2 annually.'')),
                (u ''media_url'', VNone),
                (u ''partner'', VStr (u ''Masdar''))],
             ImpactStory
               [(u ''title'', VStr (u ''Offshore Wind Integration'')),
                (u ''location'', VStr (u ''North Sea'')),
                (u ''sector'', VStr (u ''wind'')),
                (u ''summary'', VStr (u
                   ''Advanced grid-forming inverters stabilize offshore wind farms.'')),
                (u ''media_url'', VNone),
                (u ''partner'', VStr [])]]
      | Some h \<Rightarrow>
          (case get_documents D (u ''impactstory'') (Some []) (Some limit) s of
             Inl e \<Rightarrow> Inl (Propagated e)
           | Inr docs \<Rightarrow> build_all ImpactStory docs))"

definition submit_inquiry ::
  "'s database_module \<Rightarrow> inquiry \<Rightarrow> 's \<Rightarrow> (failure + inquiry_response) \<times> 's" where
  "submit_inquiry D payload s =
     (if \<not> consent payload then
        (Inl (HTTPException 400 (u ''Consent required for storing contact info.'')), s)
      else
        (case db D of
           Some h \<Rightarrow>
             (case create_document D (u ''inquiry'') payload s of
                (Inl e, s') \<Rightarrow>
                  (Inr \<lparr>ok = False,
                        message = u ''Received but DB error: '' @ take 80 (str e)\<rparr>, s')
              | (Inr r, s') \<Rightarrow>
                  (Inr \<lparr>ok = True,
                        message = u ''Thank you. Our team will contact you shortly.''\<rparr>, s'))
         | None \<Rightarrow>
             (Inr \<lparr>ok = True,
                   message = u ''Thank you. Our team will contact you shortly.''\<rparr>, s)))"

definition list_offices ::
  "(ustring \<Rightarrow> ustring option) \<Rightarrow> 's database_module \<Rightarrow> 's \<Rightarrow> failure + office list" where
  "list_offices EmailStr D s =
     (case db D of
        None \<Rightarrow>
          list_of
            [Office EmailStr
               [(u ''region'', VStr (u ''North America'')),
                (u ''city'', VStr (u ''San Francisco'')),
                (u ''email'', VStr (u ''na@cleantech.example''))],
             Office EmailStr
               [(u ''region'', VStr (u ''EMEA'')),
                (u ''city'', VStr (u ''Munich'')),
                (u ''email'', VStr (u ''emea@cleantech.example''))],
             Office EmailStr
               [(u ''region'', VStr (u ''APAC'')),
                (u ''city'', VStr (u ''Singapore'')),
                (u ''email'', VStr (u ''apac@cleantech.example''))]]
      | Some h \<Rightarrow>
          (case get_documents D (u ''office'') None None s of
             Inl e \<Rightarrow> Inl (Propagated e)
           | Inr docs \<Rightarrow> build_all (Office EmailStr) docs))"

subsection \<open>Routes\<close>

text \<open>
  The routes that the decorators of \<open>main.py\<close> register. A request carries the query
  parameters or the validated body; a query parameter left out takes the default of the
  handler's signature. The response is the handler's return value or what it raised;
  the framework answers an \<open>HTTPException\<close> with its status code and any other
  exception with 500.
\<close>

datatype request =
    GET_root
  | GET_test
  | GET_api_solutions "ustring option" "bool option"
  | GET_api_stories "int option"
  | POST_api_inquiry inquiry
  | GET_api_offices

datatype body =
    Root doc
  | Diagnostics diagnostics
  | Solutions "energy_product list"
  | Stories "impact_story list"
  | Inquiry_Response inquiry_response
  | Offices "office list"

fun app ::
  "(ustring \<Rightarrow> ustring option) \<Rightarrow> (ustring \<Rightarrow> ustring option) \<Rightarrow> 's database_module
     \<Rightarrow> request \<Rightarrow> 's \<Rightarrow> (failure + body) \<times> 's" where
  "app getenv EmailStr D GET_root s = (Inr (Root root), s)"
| "app getenv EmailStr D GET_test s = (Inr (Diagnostics (test_database getenv D)), s)"
| "app getenv EmailStr D (GET_api_solutions sector' featured') s =
     (map_sum id Solutions (list_solutions D sector' featured' s), s)"
| "app getenv EmailStr D (GET_api_stories limit) s =
     (map_sum id Stories (list_stories D (case limit of None \<Rightarrow> 6 | Some n \<Rightarrow> n) s), s)"
| "app getenv EmailStr D (POST_api_inquiry payload) s =
     (case submit_inquiry D payload s of (r, s') \<Rightarrow> (map_sum id Inquiry_Response r, s'))"
| "app getenv EmailStr D GET_api_offices s =
     (map_sum id Offices (list_offices EmailStr D s), s)"

fun status_code :: "failure + 'a \<Rightarrow> nat" where
  "status_code (Inr r) = 200"
| "status_code (Inl (HTTPException c d)) = c"
| "status_code (Inl ValidationError) = 500"
| "status_code (Inl (Propagated e)) = 500"

section \<open>A store that follows the specification\<close>

text \<open>
  Modelled from the spec: \<open>database.py\<close>, whose functions \<open>get_documents\<close> and
  \<open>create_document\<close> are missing from the sources. The specification describes the store
  as named collections of documents and the adapter as
  \<open>get_documents(collection, filter = empty, limit = unbounded)\<close>, an ordered sequence of
  the records that equal the filter on each of its fields, and
  \<open>create_document(collection, record)\<close>, which stores the record or raises on an
  I/O failure. The state below is the content of the collections and, when the store
  is failing, the message of the error that every operation raises.
\<close>

record store =
  colls :: "ustring \<Rightarrow> doc list"
  fault :: "ustring option"

text \<open>
  Modelled from the spec: the equality filter of \<open>get_documents\<close> (missing with
  \<open>database.py\<close>). A document matches when it holds every field of the filter with the
  filter's value.
\<close>

definition matches :: "doc \<Rightarrow> doc \<Rightarrow> bool" where
  "matches filt d = list_all (\<lambda>(k, v). map_of d k = Some v) filt"

text \<open>
  Modelled from the spec: \<open>get_documents\<close> of the missing \<open>database.py\<close>. It returns
  the matching documents of the collection in the order of the store, at most \<open>limit\<close>
  of them when a limit is given, and raises when the store is failing.
\<close>

definition spec_get_documents ::
  "ustring \<Rightarrow> doc option \<Rightarrow> int option \<Rightarrow> store \<Rightarrow> exc + doc list" where
  "spec_get_documents c filter_dict limit st =
     (case fault st of
        Some m \<Rightarrow> Inl (Exception m)
      | None \<Rightarrow>
          (let found = filter (matches (case filter_dict of None \<Rightarrow> [] | Some f \<Rightarrow> f))
                         (colls st c)
           in Inr (case limit of None \<Rightarrow> found | Some n \<Rightarrow> take (nat n) found)))"

text \<open>
  Modelled from the spec: the document that \<open>create_document\<close> (missing with
  \<open>database.py\<close>) stores for a record, one field of the document for each field of
  the schema, an absent optional field as \<open>None\<close>.
\<close>

definition inquiry_doc :: "inquiry \<Rightarrow> doc" where
  "inquiry_doc p =
     [(u ''name'', VStr (inquiry.name p)),
      (u ''email'', VStr (inquiry.email p)),
      (u ''company'', (case company p of None \<Rightarrow> VNone | Some c \<Rightarrow> VStr c)),
      (u ''topic'', VStr (topic p)),
      (u ''message'', VStr (inquiry.message p)),
      (u ''consent'', VBool (consent p))]"

text \<open>
  Modelled from the spec: \<open>create_document\<close> of the missing \<open>database.py\<close>. It
  appends the record's document to the collection and returns it, or raises and leaves
  the store as it was when the store is failing.
\<close>

definition spec_create_document ::
  "ustring \<Rightarrow> inquiry \<Rightarrow> store \<Rightarrow> (exc + doc) \<times> store" where
  "spec_create_document c p st =
     (case fault st of
        Some m \<Rightarrow> (Inl (Exception m), st)
      | None \<Rightarrow>
          (Inr (inquiry_doc p), st\<lparr>colls := (colls st)(c := colls st c @ [inquiry_doc p])\<rparr>))"

text \<open>
  Modelled from the spec: the names \<open>main.py\<close> imports from the missing
  \<open>database.py\<close>, bound to the two functions above and a handle.
\<close>

definition spec_database :: "handle option \<Rightarrow> store database_module" where
  "spec_database h =
     \<lparr>db = h, get_documents = spec_get_documents, create_document = spec_create_document\<rparr>"

section \<open>Concrete stores and requests\<close>

text \<open>
  Inputs on which the theorems below are run. \<open>recording_database\<close> keeps, as its
  state, the list of the writes it was asked for; \<open>raising_database\<close> raises on every
  operation. Both have a handle; \<open>detached_database\<close> has none.
\<close>

definition handle0 :: handle where
  "handle0 =
     \<lparr>name_attr = Inr (Some (u ''cleanenergy'')),
      list_collection_names = Inr [u ''energyproduct'', u ''inquiry'']\<rparr>"

definition handle1 :: handle where
  "handle1 =
     \<lparr>name_attr = Inr None,
      list_collection_names = Inl (Exception (replicate 100 (of_char CHR ''x'')))\<rparr>"

definition recording_database :: "(ustring \<times> inquiry) list database_module" where
  "recording_database =
     \<lparr>db = Some handle0,
      get_documents = (\<lambda>c f l s. Inr []),
      create_document = (\<lambda>c p s. (Inr [], s @ [(c, p)]))\<rparr>"

definition raising_database :: "(ustring \<times> inquiry) list database_module" where
  "raising_database =
     \<lparr>db = Some handle0,
      get_documents = (\<lambda>c f l s. Inl (Exception (u ''connection refused''))),
      create_document = (\<lambda>c p s. (Inl (Exception (u ''connection refused'')), s))\<rparr>"

definition detached_database :: "(ustring \<times> inquiry) list database_module" where
  "detached_database = recording_database\<lparr>db := None\<rparr>"

definition inquiry0 :: inquiry where
  "inquiry0 =
     \<lparr>inquiry.name = u ''Ada'', inquiry.email = u ''ada@example.org'', company = None,
      topic = u ''Support'', inquiry.message = u ''Hello'', consent = False\<rparr>"

definition inquiry1 :: inquiry where
  "inquiry1 =
     \<lparr>inquiry.name = u ''Ada'', inquiry.email = u ''ada@example.org'',
      company = Some (u ''Engines''), topic = u ''Support'', inquiry.message = u ''Hello'',
      consent = True\<rparr>"

definition accept_any :: "ustring \<Rightarrow> ustring option" where
  "accept_any x = Some x"

definition environ0 :: "ustring \<Rightarrow> ustring option" where
  "environ0 = map_of [(u ''DATABASE_URL'', u ''mongodb://localhost''), (u ''DATABASE_NAME'', [])]"

definition story_doc :: "ustring \<Rightarrow> doc" where
  "story_doc t = [(u ''_id'', VOther), (u ''title'', VStr t), (u ''summary'', VStr (u ''text''))]"

definition story :: "ustring \<Rightarrow> impact_story" where
  "story t =
     \<lparr>title = t, location = None, impact_story.sector = None,
      impact_story.summary = u ''text'', media_url = None, partner = None\<rparr>"

definition stories_store :: store where
  "stories_store =
     \<lparr>colls = (\<lambda>c. if c = u ''impactstory''
                   then [story_doc (u ''A''), story_doc (u ''B''), story_doc (u ''C''),
                         story_doc (u ''D''), story_doc (u ''E'')]
                   else []),
      fault = None\<rparr>"

definition empty_store :: store where
  "empty_store = \<lparr>colls = (\<lambda>c. []), fault = None\<rparr>"

definition product_doc :: "ustring \<Rightarrow> ustring \<Rightarrow> bool \<Rightarrow> doc" where
  "product_doc n se fe =
     [(u ''_id'', VOther), (u ''name'', VStr n), (u ''sector'', VStr se),
      (u ''summary'', VStr (u ''text'')), (u ''featured'', VBool fe)]"

definition product :: "ustring \<Rightarrow> ustring \<Rightarrow> bool \<Rightarrow> energy_product" where
  "product n se fe =
     \<lparr>energy_product.name = n, energy_product.sector = se,
      energy_product.summary = u ''text'', specs = None, image = None, featured = fe\<rparr>"

definition products_store :: store where
  "products_store =
     \<lparr>colls = (\<lambda>c. if c = u ''energyproduct''
                   then [product_doc (u ''Panels'') (u ''solar'') False,
                         product_doc (u ''Turbines'') (u ''wind'') True]
                   else []),
      fault = None\<rparr>"

text \<open>
  \<open>selective_database\<close> raises for one query only, that of \<open>energyproduct\<close> with the
  filter \<open>{"sector": "wind"}\<close>, and returns no document for any other.
\<close>

definition selective_database :: "(ustring \<times> inquiry) list database_module" where
  "selective_database =
     \<lparr>db = Some handle0,
      get_documents =
        (\<lambda>c f l s. if c = u ''energyproduct'' \<and> f = Some [(u ''sector'', VStr (u ''wind''))]
                   then Inl (Exception (u ''cursor lost''))
                   else Inr []),
      create_document = (\<lambda>c p s. (Inr [], s @ [(c, p)]))\<rparr>"

section \<open>POST /api/inquiry\<close>

lemmas field_defs =
  required_str_def optional_str_def optional_str_list_def bool_default_def optional_email_def

text \<open>
  Claim C1. A payload whose \<open>consent\<close> is false is answered with the
  \<open>HTTPException\<close> of status 400, and the store is left as it was. This holds for every
  \<open>create_document\<close>, also for one that records each call in the state, so no write is
  attempted. Conversely, a submission that changes the store has \<open>consent\<close> true.
\<close>

theorem consent_false_rejected:
  "(\<not> consent payload \<longrightarrow>
      submit_inquiry D payload s =
        (Inl (HTTPException 400 (u ''Consent required for storing contact info.'')), s)
      \<and> status_code (fst (submit_inquiry D payload s)) = 400)
   \<and> (snd (submit_inquiry D payload s) \<noteq> s \<longrightarrow> consent payload)"
  by (simp add: submit_inquiry_def)

theorem consent_false_rejected_witness:
  "\<not> consent inquiry0
   \<and> submit_inquiry recording_database inquiry0 [] =
       (Inl (HTTPException 400 (u ''Consent required for storing contact info.'')), [])
   \<and> status_code (fst (submit_inquiry recording_database inquiry0 [])) = 400
   \<and> snd (submit_inquiry recording_database inquiry1 []) = [(u ''inquiry'', inquiry1)]
   \<and> consent inquiry1"
proof -
  have a: "\<not> consent inquiry0"
    by (simp add: inquiry0_def)
  have b: "snd (submit_inquiry recording_database inquiry1 []) = [(u ''inquiry'', inquiry1)]"
    by (simp add: submit_inquiry_def recording_database_def inquiry1_def)
  then have c: "snd (submit_inquiry recording_database inquiry1 []) \<noteq> []"
    by simp
  from a b c consent_false_rejected [of inquiry0 recording_database "[]"]
    consent_false_rejected [of inquiry1 recording_database "[]"]
  show ?thesis by simp
qed

text \<open>
  Claim C2. With \<open>consent\<close> true and a store handle, the handler returns a response in
  both outcomes of the write: \<open>ok = True\<close> with the thank-you message when
  \<open>create_document\<close> returns, \<open>ok = False\<close> with the first 80 characters of the error
  when it raises. In neither case does an exception leave the handler.
\<close>

theorem inquiry_write_outcome:
  "consent payload \<Longrightarrow> db D = Some h \<Longrightarrow>
     (\<forall>r s'. create_document D (u ''inquiry'') payload s = (Inr r, s') \<longrightarrow>
        submit_inquiry D payload s =
          (Inr \<lparr>ok = True, message = u ''Thank you. Our team will contact you shortly.''\<rparr>, s'))
     \<and> (\<forall>e s'. create_document D (u ''inquiry'') payload s = (Inl e, s') \<longrightarrow>
        submit_inquiry D payload s =
          (Inr \<lparr>ok = False, message = u ''Received but DB error: '' @ take 80 (str e)\<rparr>, s'))
     \<and> (\<exists>r. fst (submit_inquiry D payload s) = Inr r)"
  by (auto simp add: submit_inquiry_def split: prod.splits sum.splits)

theorem inquiry_write_outcome_witness:
  "consent inquiry1 \<and> db recording_database = Some handle0
   \<and> db raising_database = Some handle0
   \<and> submit_inquiry recording_database inquiry1 [] =
       (Inr \<lparr>ok = True, message = u ''Thank you. Our team will contact you shortly.''\<rparr>,
        [(u ''inquiry'', inquiry1)])
   \<and> submit_inquiry raising_database inquiry1 [] =
       (Inr \<lparr>ok = False, message = u ''Received but DB error: connection refused''\<rparr>, [])"
proof -
  have a: "consent inquiry1"
    by (simp add: inquiry1_def)
  have b: "db recording_database = Some handle0"
    by (simp add: recording_database_def)
  have c: "db raising_database = Some handle0"
    by (simp add: raising_database_def)
  have d: "create_document recording_database (u ''inquiry'') inquiry1 [] =
             (Inr [], [(u ''inquiry'', inquiry1)])"
    by (simp add: recording_database_def)
  have e: "create_document raising_database (u ''inquiry'') inquiry1 [] =
             (Inl (Exception (u ''connection refused'')), [])"
    by (simp add: raising_database_def)
  have f: "u ''Received but DB error: '' @ take 80 (str (Exception (u ''connection refused'')))
             = u ''Received but DB error: connection refused''"
    by (simp add: u_def)
  from inquiry_write_outcome [OF a b, of "[]"] d
  have g: "submit_inquiry recording_database inquiry1 [] =
       (Inr \<lparr>ok = True, message = u ''Thank you. Our team will contact you shortly.''\<rparr>,
        [(u ''inquiry'', inquiry1)])"
    by blast
  from inquiry_write_outcome [OF a c, of "[]"] e
  have "submit_inquiry raising_database inquiry1 [] =
       (Inr \<lparr>ok = False, message = u ''Received but DB error: ''
          @ take 80 (str (Exception (u ''connection refused'')))\<rparr>, [])"
    by blast
  with f have h: "submit_inquiry raising_database inquiry1 [] =
       (Inr \<lparr>ok = False, message = u ''Received but DB error: connection refused''\<rparr>, [])"
    by simp
  from a b c g h show ?thesis by blast
qed

text \<open>
  Claim C9. Without a store handle, a payload with \<open>consent\<close> true is acknowledged
  with \<open>ok = True\<close> and the thank-you message, and the store is left as it was: nothing
  is written.
\<close>

theorem inquiry_dropped_without_store:
  "consent payload \<Longrightarrow> db D = None \<Longrightarrow>
     submit_inquiry D payload s =
       (Inr \<lparr>ok = True, message = u ''Thank you. Our team will contact you shortly.''\<rparr>, s)"
  by (simp add: submit_inquiry_def)

theorem inquiry_dropped_without_store_witness:
  "consent inquiry1 \<and> db detached_database = None
   \<and> submit_inquiry detached_database inquiry1 [] =
       (Inr \<lparr>ok = True, message = u ''Thank you. Our team will contact you shortly.''\<rparr>, [])"
proof -
  have a: "consent inquiry1"
    by (simp add: inquiry1_def)
  have b: "db detached_database = None"
    by (simp add: detached_database_def)
  from a b inquiry_dropped_without_store [OF a b, of "[]"] show ?thesis by simp
qed

section \<open>GET /\<close>

text \<open>
  Claim C6. \<open>GET /\<close> answers with status 200 and the object
  \<open>{"status": "ok", "service": "clean-energy-backend"}\<close>, whatever the handle, the
  adapter functions, the environment and the state of the store are; the store is left
  as it was.
\<close>

theorem root_constant:
  "app getenv EmailStr D GET_root s =
     (Inr (Root [(u ''status'', VStr (u ''ok'')),
                 (u ''service'', VStr (u ''clean-energy-backend''))]), s)
   \<and> status_code (fst (app getenv EmailStr D GET_root s)) = 200"
  by (simp add: root_def)

section \<open>GET /test\<close>

text \<open>
  Claim C7. \<open>GET /test\<close> always returns a diagnostics object and leaves the store
  as it was. Each field is reported from its own check: \<open>database_url\<close> and
  \<open>database_name\<close> from the one environment variable each, \<open>connection_status\<close>
  from the handle, \<open>collections\<close> and \<open>database\<close> from the handle and the listing.
  An error of the listing leaves \<open>connection_status\<close> at \<open>Connected\<close> and is rendered
  in \<open>database\<close> with at most 80 characters of its message, as is an error of the
  attribute lookup; \<open>database\<close> never exceeds 104 characters.
\<close>

theorem test_database_reports:
  "app getenv EmailStr D GET_test s = (Inr (Diagnostics (test_database getenv D)), s)
   \<and> backend (test_database getenv D) = check_mark @ u '' Running''
   \<and> database_url (test_database getenv D) =
       (if is_set (getenv (u ''DATABASE_URL'')) then check_mark @ u '' Set''
        else cross_mark @ u '' Not Set'')
   \<and> database_name (test_database getenv D) =
       (if is_set (getenv (u ''DATABASE_NAME'')) then check_mark @ u '' Set''
        else cross_mark @ u '' Not Set'')
   \<and> connection_status (test_database getenv D) =
       (case db D of
          None \<Rightarrow> u ''Not Connected''
        | Some h \<Rightarrow>
            (case name_attr h of Inl e \<Rightarrow> u ''Not Connected'' | Inr a \<Rightarrow> u ''Connected''))
   \<and> database (test_database getenv D) =
       (case db D of
          None \<Rightarrow> cross_mark @ u '' Database not initialized''
        | Some h \<Rightarrow>
            (case name_attr h of
               Inl e \<Rightarrow> cross_mark @ u '' Error: '' @ take 80 (str e)
             | Inr a \<Rightarrow>
                 (case list_collection_names h of
                    Inl e \<Rightarrow> warning_sign @ u '' Connected but Error: '' @ take 80 (str e)
                  | Inr cs \<Rightarrow> check_mark @ u '' Connected & Working'')))
   \<and> collections (test_database getenv D) =
       (case db D of
          None \<Rightarrow> []
        | Some h \<Rightarrow>
            (case name_attr h of
               Inl e \<Rightarrow> []
             | Inr a \<Rightarrow>
                 (case list_collection_names h of Inl e \<Rightarrow> [] | Inr cs \<Rightarrow> take 10 cs)))
   \<and> length (database (test_database getenv D)) \<le> 104"
  by (auto simp add: test_database_def Let_def u_def check_mark_def cross_mark_def
        warning_sign_def split: option.splits sum.splits)

theorem test_database_reports_witness:
  "database (test_database environ0 (recording_database\<lparr>db := Some handle1\<rparr>)) =
     warning_sign @ u '' Connected but Error: '' @ replicate 80 (of_char CHR ''x'')
   \<and> database_url (test_database environ0 (recording_database\<lparr>db := Some handle1\<rparr>)) =
     check_mark @ u '' Set''
   \<and> database_name (test_database environ0 (recording_database\<lparr>db := Some handle1\<rparr>)) =
     cross_mark @ u '' Not Set''
   \<and> connection_status (test_database environ0 (recording_database\<lparr>db := Some handle1\<rparr>)) =
     u ''Connected''
   \<and> collections (test_database environ0 (recording_database\<lparr>db := Some handle1\<rparr>)) = []"
proof -
  have a: "name_attr handle1 = Inr None"
    by (simp add: handle1_def)
  have b: "list_collection_names handle1 = Inl (Exception (replicate 100 (of_char CHR ''x'')))"
    by (simp add: handle1_def)
  have c: "is_set (environ0 (u ''DATABASE_URL''))"
    by (simp add: environ0_def is_set_def u_def)
  have d: "\<not> is_set (environ0 (u ''DATABASE_NAME''))"
    by (simp add: environ0_def is_set_def u_def)
  from test_database_reports
    [of environ0 accept_any "recording_database\<lparr>db := Some handle1\<rparr>" "[]"]
  show ?thesis
    by (simp add: a b c d)
qed

section \<open>GET /api/solutions\<close>

text \<open>
  Claim C3. Without a store handle, \<open>GET /api/solutions\<close> returns the same three
  records for every value of \<open>sector\<close> and \<open>featured\<close>.
\<close>

theorem solutions_defaults_without_store:
  "db D = None \<Longrightarrow>
     list_solutions D sector' featured' s =
       Inr [\<lparr>energy_product.name = u ''Solar Inverters'',
             energy_product.sector = u ''solar'',
             energy_product.summary = u ''High-efficiency PV inverters for utility and C&I.'',
             specs = Some [u ''98.6% max efficiency'', u ''Grid support''],
             image = None, featured = True\<rparr>,
            \<lparr>energy_product.name = u ''Wind Drive Systems'',
             energy_product.sector = u ''wind'',
             energy_product.summary =
               u ''Reliable drivetrain and control systems for wind turbines.'',
             specs = Some [u ''Low maintenance'', u ''High uptime''],
             image = None, featured = True\<rparr>,
            \<lparr>energy_product.name = u ''Battery Energy Storage'',
             energy_product.sector = u ''storage'',
             energy_product.summary = u ''Modular, safe, and scalable storage systems.'',
             specs = Some [u ''LFP chemistry'', u ''Liquid cooling''],
             image = None, featured = True\<rparr>]"
  by (simp add: list_solutions_def list_of_def EnergyProduct_def field_defs u_def)

theorem solutions_defaults_without_store_witness:
  "db detached_database = None
   \<and> list_solutions detached_database (Some (u ''hydrogen'')) (Some False) [] =
       list_solutions detached_database None None []
   \<and> map energy_product.name (projr (list_solutions detached_database (Some []) (Some True) []))
       = [u ''Solar Inverters'', u ''Wind Drive Systems'', u ''Battery Energy Storage'']"
proof -
  have a: "db detached_database = None"
    by (simp add: detached_database_def)
  from a solutions_defaults_without_store [OF a, of "Some (u ''hydrogen'')" "Some False" "[]"]
    solutions_defaults_without_store [OF a, of None None "[]"]
    solutions_defaults_without_store [OF a, of "Some []" "Some True" "[]"]
  show ?thesis by simp
qed

text \<open>
  Claim C10. With a store handle, \<open>GET /api/solutions\<close> queries the collection
  \<open>energyproduct\<close> with a filter that holds \<open>sector\<close> exactly when the parameter is a
  non-empty string and \<open>featured\<close> exactly when the parameter is given, \<open>False\<close>
  included. An empty \<open>sector\<close> gives the same answer as none.
\<close>

theorem solutions_filter:
  "db D = Some h \<Longrightarrow>
     list_solutions D sector' featured' s =
       (case get_documents D (u ''energyproduct'')
               (Some ((case sector' of
                         Some (c # cs) \<Rightarrow> [(u ''sector'', VStr (c # cs))]
                       | _ \<Rightarrow> [])
                      @ (case featured' of
                           Some b \<Rightarrow> [(u ''featured'', VBool b)]
                         | None \<Rightarrow> []))) None s of
          Inl e \<Rightarrow> Inl (Propagated e)
        | Inr docs \<Rightarrow> build_all EnergyProduct docs)
     \<and> list_solutions D (Some []) featured' s = list_solutions D None featured' s"
  by (simp add: list_solutions_def u_def split: option.splits list.splits)

theorem solutions_filter_witness:
  "db (spec_database (Some handle0)) = Some handle0
   \<and> list_solutions (spec_database (Some handle0)) (Some []) (Some False) products_store =
       Inr [product (u ''Panels'') (u ''solar'') False]
   \<and> list_solutions (spec_database (Some handle0)) (Some []) None products_store =
       Inr [product (u ''Panels'') (u ''solar'') False, product (u ''Turbines'') (u ''wind'') True]
   \<and> list_solutions (spec_database (Some handle0)) (Some (u ''wind'')) None products_store =
       Inr [product (u ''Turbines'') (u ''wind'') True]"
proof -
  have a: "db (spec_database (Some handle0)) = Some handle0"
    by (simp add: spec_database_def)
  from solutions_filter [OF a, of "Some []" "Some False" products_store]
    solutions_filter [OF a, of "Some []" None products_store]
    solutions_filter [OF a, of "Some (u ''wind'')" None products_store]
  show ?thesis
    by (simp add: spec_database_def spec_get_documents_def products_store_def matches_def
          product_doc_def product_def EnergyProduct_def without_id_def build_all_def
          field_defs u_def)
qed

section \<open>Errors of the store on the read endpoints\<close>

text \<open>
  Claim C4, as stated, fails: on a store whose query raises, each of the three read
  handlers ends with the exception of the store, and the framework answers 500.
\<close>

theorem read_errors_not_caught_counterexample:
  "list_solutions raising_database None None [] =
     Inl (Propagated (Exception (u ''connection refused'')))
   \<and> list_stories raising_database 6 [] =
     Inl (Propagated (Exception (u ''connection refused'')))
   \<and> list_offices accept_any raising_database [] =
     Inl (Propagated (Exception (u ''connection refused'')))
   \<and> status_code (fst (app environ0 accept_any raising_database GET_api_offices [])) = 500"
  by (simp add: list_solutions_def list_stories_def list_offices_def raising_database_def)

text \<open>
  Claim C4, amended. With a store handle, when the query that the request makes raises
  (\<open>get_documents\<close> on the endpoint's collection, with the filter and the limit that
  the handler builds from the request), none of \<open>GET /api/solutions\<close>,
  \<open>GET /api/stories\<close> and \<open>GET /api/offices\<close> catches the error: it leaves the
  handler as it is, no default data is returned, the route answers with status 500
  and the store is left as it was.
\<close>

theorem read_errors_propagate:
  "db D = Some h \<Longrightarrow>
     (get_documents D (u ''energyproduct'')
        (Some ((case sector' of
                  Some (c # cs) \<Rightarrow> [(u ''sector'', VStr (c # cs))]
                | _ \<Rightarrow> [])
               @ (case featured' of
                    Some b \<Rightarrow> [(u ''featured'', VBool b)]
                  | None \<Rightarrow> []))) None s = Inl e1 \<longrightarrow>
        list_solutions D sector' featured' s = Inl (Propagated e1)
        \<and> app getenv EmailStr D (GET_api_solutions sector' featured') s =
            (Inl (Propagated e1), s)
        \<and> status_code (fst (app getenv EmailStr D (GET_api_solutions sector' featured') s))
            = 500)
     \<and> (get_documents D (u ''impactstory'') (Some [])
          (Some (case limit of None \<Rightarrow> 6 | Some n \<Rightarrow> n)) s = Inl e2 \<longrightarrow>
        list_stories D (case limit of None \<Rightarrow> 6 | Some n \<Rightarrow> n) s = Inl (Propagated e2)
        \<and> app getenv EmailStr D (GET_api_stories limit) s = (Inl (Propagated e2), s)
        \<and> status_code (fst (app getenv EmailStr D (GET_api_stories limit) s)) = 500)
     \<and> (get_documents D (u ''office'') None None s = Inl e3 \<longrightarrow>
        list_offices EmailStr D s = Inl (Propagated e3)
        \<and> app getenv EmailStr D GET_api_offices s = (Inl (Propagated e3), s)
        \<and> status_code (fst (app getenv EmailStr D GET_api_offices s)) = 500)"
proof (intro conjI impI)
  assume h: "db D = Some h"
  {
    assume q: "get_documents D (u ''energyproduct'')
        (Some ((case sector' of
                  Some (c # cs) \<Rightarrow> [(u ''sector'', VStr (c # cs))]
                | _ \<Rightarrow> [])
               @ (case featured' of
                    Some b \<Rightarrow> [(u ''featured'', VBool b)]
                  | None \<Rightarrow> []))) None s = Inl e1"
    from h q show r: "list_solutions D sector' featured' s = Inl (Propagated e1)"
      by (simp add: list_solutions_def u_def split: option.splits list.splits)
    from r show "app getenv EmailStr D (GET_api_solutions sector' featured') s =
            (Inl (Propagated e1), s)"
      by simp
    from r show
      "status_code (fst (app getenv EmailStr D (GET_api_solutions sector' featured') s)) = 500"
      by simp
  }
  {
    assume q: "get_documents D (u ''impactstory'') (Some [])
          (Some (case limit of None \<Rightarrow> 6 | Some n \<Rightarrow> n)) s = Inl e2"
    from h q show r: "list_stories D (case limit of None \<Rightarrow> 6 | Some n \<Rightarrow> n) s =
        Inl (Propagated e2)"
      by (simp add: list_stories_def)
    from r show "app getenv EmailStr D (GET_api_stories limit) s = (Inl (Propagated e2), s)"
      by simp
    from r show "status_code (fst (app getenv EmailStr D (GET_api_stories limit) s)) = 500"
      by simp
  }
  {
    assume q: "get_documents D (u ''office'') None None s = Inl e3"
    from h q show r: "list_offices EmailStr D s = Inl (Propagated e3)"
      by (simp add: list_offices_def)
    from r show "app getenv EmailStr D GET_api_offices s = (Inl (Propagated e3), s)"
      by simp
    from r show "status_code (fst (app getenv EmailStr D GET_api_offices s)) = 500"
      by simp
  }
qed

theorem read_errors_propagate_witness:
  "db selective_database = Some handle0
   \<and> get_documents selective_database (u ''energyproduct'')
       (Some [(u ''sector'', VStr (u ''wind''))]) None [] = Inl (Exception (u ''cursor lost''))
   \<and> get_documents selective_database (u ''energyproduct'')
       (Some [(u ''sector'', VStr (u ''solar''))]) None [] = Inr []
   \<and> app environ0 accept_any selective_database (GET_api_solutions (Some (u ''wind'')) None) []
       = (Inl (Propagated (Exception (u ''cursor lost''))), [])
   \<and> status_code
        (fst (app environ0 accept_any selective_database
                (GET_api_solutions (Some (u ''wind'')) None) [])) = 500
   \<and> db raising_database = Some handle0
   \<and> app environ0 accept_any raising_database (GET_api_stories (Some 2)) [] =
       (Inl (Propagated (Exception (u ''connection refused''))), [])
   \<and> app environ0 accept_any raising_database (GET_api_stories None) [] =
       (Inl (Propagated (Exception (u ''connection refused''))), [])
   \<and> app environ0 accept_any raising_database GET_api_offices [] =
       (Inl (Propagated (Exception (u ''connection refused''))), [])"
proof -
  have a: "db selective_database = Some handle0"
    by (simp add: selective_database_def)
  have b: "get_documents selective_database (u ''energyproduct'')
       (Some [(u ''sector'', VStr (u ''wind''))]) None [] = Inl (Exception (u ''cursor lost''))"
    by (simp add: selective_database_def)
  have c: "get_documents selective_database (u ''energyproduct'')
       (Some [(u ''sector'', VStr (u ''solar''))]) None [] = Inr []"
    by (simp add: selective_database_def u_def)
  have w: "u ''wind'' = of_char CHR ''w'' # u ''ind''"
    by (simp add: u_def)
  have b': "get_documents selective_database (u ''energyproduct'')
       (Some ((case Some (u ''wind'') of
                  Some (c # cs) \<Rightarrow> [(u ''sector'', VStr (c # cs))]
                | _ \<Rightarrow> [])
               @ (case None of
                    Some b \<Rightarrow> [(u ''featured'', VBool b)]
                  | None \<Rightarrow> []))) None [] = Inl (Exception (u ''cursor lost''))"
    using b by (simp add: w)
  have d: "db raising_database = Some handle0"
    by (simp add: raising_database_def)
  have e: "get_documents raising_database k f l [] = Inl (Exception (u ''connection refused''))"
    for k f l
    by (simp add: raising_database_def)
  note sel = read_errors_propagate [OF a, where sector' = "Some (u ''wind'')"
      and featured' = None and s = "[]" and getenv = environ0 and EmailStr = accept_any
      and ?e1.0 = "Exception (u ''cursor lost'')"]
  note rai2 = read_errors_propagate [OF d, where s = "[]" and limit = "Some 2"
      and getenv = environ0 and EmailStr = accept_any
      and ?e2.0 = "Exception (u ''connection refused'')"]
  note rai6 = read_errors_propagate [OF d, where s = "[]" and limit = None
      and getenv = environ0 and EmailStr = accept_any
      and ?e2.0 = "Exception (u ''connection refused'')"
      and ?e3.0 = "Exception (u ''connection refused'')"]
  from sel b' have s1:
    "app environ0 accept_any selective_database (GET_api_solutions (Some (u ''wind'')) None) []
       = (Inl (Propagated (Exception (u ''cursor lost''))), [])"
    by blast
  from rai2 e have s2:
    "app environ0 accept_any raising_database (GET_api_stories (Some 2)) [] =
       (Inl (Propagated (Exception (u ''connection refused''))), [])"
    by blast
  from rai6 e have s3:
    "app environ0 accept_any raising_database (GET_api_stories None) [] =
       (Inl (Propagated (Exception (u ''connection refused''))), [])"
    by blast
  from rai6 e have s4:
    "app environ0 accept_any raising_database GET_api_offices [] =
       (Inl (Propagated (Exception (u ''connection refused''))), [])"
    by blast
  from a b c d s1 s2 s3 s4 show ?thesis by simp
qed

section \<open>GET /api/stories on the specified store\<close>

text \<open>
  Claim C5. On a store that follows the specification, is not failing and holds five
  documents in \<open>impactstory\<close>, \<open>GET /api/stories\<close> with \<open>limit = 2\<close> returns
  exactly the records of the first two documents, in the order of the store.
\<close>

theorem stories_limit_two:
  "fault st = None \<Longrightarrow> colls st (u ''impactstory'') = [d1, d2, d3, d4, d5] \<Longrightarrow>
   ImpactStory (without_id d1) = Some r1 \<Longrightarrow> ImpactStory (without_id d2) = Some r2 \<Longrightarrow>
     list_stories (spec_database (Some h)) 2 st = Inr [r1, r2]"
  by (simp add: list_stories_def spec_database_def spec_get_documents_def matches_def
        build_all_def)

theorem stories_limit_two_witness:
  "fault stories_store = None
   \<and> colls stories_store (u ''impactstory'') =
       [story_doc (u ''A''), story_doc (u ''B''), story_doc (u ''C''), story_doc (u ''D''),
        story_doc (u ''E'')]
   \<and> ImpactStory (without_id (story_doc (u ''A''))) = Some (story (u ''A''))
   \<and> ImpactStory (without_id (story_doc (u ''B''))) = Some (story (u ''B''))
   \<and> list_stories (spec_database (Some handle0)) 2 stories_store =
       Inr [story (u ''A''), story (u ''B'')]"
proof -
  have a: "fault stories_store = None"
    by (simp add: stories_store_def)
  have b: "colls stories_store (u ''impactstory'') =
       [story_doc (u ''A''), story_doc (u ''B''), story_doc (u ''C''), story_doc (u ''D''),
        story_doc (u ''E'')]"
    by (simp add: stories_store_def)
  have c: "ImpactStory (without_id (story_doc t)) = Some (story t)" for t
    by (simp add: ImpactStory_def without_id_def story_doc_def story_def field_defs u_def)
  from a b c stories_limit_two [OF a b c c, of handle0] show ?thesis by simp
qed

section \<open>Round trip of an inquiry on the specified store\<close>

text \<open>
  Claim C8. On a store that follows the specification and is not failing, a payload
  with \<open>consent\<close> true is acknowledged with \<open>ok = True\<close>, and afterwards the
  collection \<open>inquiry\<close> holds its former documents followed by one new document, whose
  fields \<open>name\<close>, \<open>email\<close>, \<open>company\<close>, \<open>topic\<close>, \<open>message\<close> and
  \<open>consent\<close> are the submitted values.
\<close>

theorem inquiry_round_trip:
  "consent payload \<Longrightarrow> fault st = None \<Longrightarrow>
   submit_inquiry (spec_database (Some h)) payload st = (r, st') \<Longrightarrow>
     r = Inr \<lparr>ok = True, message = u ''Thank you. Our team will contact you shortly.''\<rparr>
     \<and> length (colls st' (u ''inquiry'')) = Suc (length (colls st (u ''inquiry'')))
     \<and> butlast (colls st' (u ''inquiry'')) = colls st (u ''inquiry'')
     \<and> map_of (last (colls st' (u ''inquiry''))) (u ''name'') = Some (VStr (inquiry.name payload))
     \<and> map_of (last (colls st' (u ''inquiry''))) (u ''email'') = Some (VStr (inquiry.email payload))
     \<and> map_of (last (colls st' (u ''inquiry''))) (u ''company'') =
         Some (case company payload of None \<Rightarrow> VNone | Some c \<Rightarrow> VStr c)
     \<and> map_of (last (colls st' (u ''inquiry''))) (u ''topic'') = Some (VStr (topic payload))
     \<and> map_of (last (colls st' (u ''inquiry''))) (u ''message'') =
         Some (VStr (inquiry.message payload))
     \<and> map_of (last (colls st' (u ''inquiry''))) (u ''consent'') = Some (VBool (consent payload))"
  by (auto simp add: submit_inquiry_def spec_database_def spec_create_document_def
        inquiry_doc_def u_def)

theorem inquiry_round_trip_witness:
  "consent inquiry1 \<and> fault empty_store = None
   \<and> fst (submit_inquiry (spec_database (Some handle0)) inquiry1 empty_store) =
       Inr \<lparr>ok = True, message = u ''Thank you. Our team will contact you shortly.''\<rparr>
   \<and> colls (snd (submit_inquiry (spec_database (Some handle0)) inquiry1 empty_store))
         (u ''inquiry'') =
       [[(u ''name'', VStr (u ''Ada'')), (u ''email'', VStr (u ''ada@example.org'')),
         (u ''company'', VStr (u ''Engines'')), (u ''topic'', VStr (u ''Support'')),
         (u ''message'', VStr (u ''Hello'')), (u ''consent'', VBool True)]]"
proof -
  have a: "consent inquiry1"
    by (simp add: inquiry1_def)
  have b: "fault empty_store = None"
    by (simp add: empty_store_def)
  have c: "colls (snd (submit_inquiry (spec_database (Some handle0)) inquiry1 empty_store))
         (u ''inquiry'') =
       [[(u ''name'', VStr (u ''Ada'')), (u ''email'', VStr (u ''ada@example.org'')),
         (u ''company'', VStr (u ''Engines'')), (u ''topic'', VStr (u ''Support'')),
         (u ''message'', VStr (u ''Hello'')), (u ''consent'', VBool True)]]"
    by (simp add: submit_inquiry_def spec_database_def spec_create_document_def
          inquiry_doc_def inquiry1_def empty_store_def)
  from inquiry_round_trip [OF a b surjective_pairing, of handle0] a b c
  show ?thesis by simp
qed

end
